theory Spec2Isabelle
  imports Complex_Main "HOL-Library.Multiset" "HOL-Library.Log_Nat"
begin

section \<open>JavaScript numbers\<close>

text \<open>
  The calculator of \<^verbatim>\<open>src/pages/index.tsx\<close> computes on JavaScript numbers. A number is
  modelled as a real or one of the three special values of IEEE 754 arithmetic, and
  the four operations follow the IEEE rules for these values: a division by zero
  gives an infinity, or \<open>NaN\<close> for \<open>0 / 0\<close>; \<open>Infinity - Infinity\<close>, \<open>0 * Infinity\<close> and
  \<open>Infinity / Infinity\<close> give \<open>NaN\<close>; \<open>NaN\<close> propagates through every operation and
  every comparison with \<open>NaN\<close> is false.

  Two aspects of binary64 are abstracted: finite results are exact reals (no rounding,
  no overflow, no underflow), and there is one zero, which divides as \<open>+0\<close> does.
  Where the rounding decides a property (the order of the health events), the sum is
  taken with every product and sum rounded to binary64: see \<open>round64\<close> and
  \<open>healthSavings64\<close> below.
\<close>

datatype number = Num real | Infinity | NegInfinity | NaN

instantiation number :: "{plus, minus, uminus, times, inverse}"
begin

fun uminus_number :: "number \<Rightarrow> number" where
  "uminus_number (Num a) = Num (- a)"
| "uminus_number Infinity = NegInfinity"
| "uminus_number NegInfinity = Infinity"
| "uminus_number NaN = NaN"

fun plus_number :: "number \<Rightarrow> number \<Rightarrow> number" where
  "plus_number (Num a) (Num b) = Num (a + b)"
| "plus_number (Num a) Infinity = Infinity"
| "plus_number (Num a) NegInfinity = NegInfinity"
| "plus_number Infinity (Num b) = Infinity"
| "plus_number Infinity Infinity = Infinity"
| "plus_number Infinity NegInfinity = NaN"
| "plus_number NegInfinity (Num b) = NegInfinity"
| "plus_number NegInfinity Infinity = NaN"
| "plus_number NegInfinity NegInfinity = NegInfinity"
| "plus_number NaN y = NaN"
| "plus_number x NaN = NaN"

definition minus_number :: "number \<Rightarrow> number \<Rightarrow> number" where
  "minus_number x y = x + (- y)"

fun times_number :: "number \<Rightarrow> number \<Rightarrow> number" where
  "times_number (Num a) (Num b) = Num (a * b)"
| "times_number (Num a) Infinity =
     (if a = 0 then NaN else if 0 < a then Infinity else NegInfinity)"
| "times_number (Num a) NegInfinity =
     (if a = 0 then NaN else if 0 < a then NegInfinity else Infinity)"
| "times_number Infinity (Num b) =
     (if b = 0 then NaN else if 0 < b then Infinity else NegInfinity)"
| "times_number Infinity Infinity = Infinity"
| "times_number Infinity NegInfinity = NegInfinity"
| "times_number NegInfinity (Num b) =
     (if b = 0 then NaN else if 0 < b then NegInfinity else Infinity)"
| "times_number NegInfinity Infinity = NegInfinity"
| "times_number NegInfinity NegInfinity = Infinity"
| "times_number NaN y = NaN"
| "times_number x NaN = NaN"

fun divide_number :: "number \<Rightarrow> number \<Rightarrow> number" where
  "divide_number (Num a) (Num b) =
     (if b = 0 then (if a = 0 then NaN else if 0 < a then Infinity else NegInfinity)
      else Num (a / b))"
| "divide_number (Num a) Infinity = Num 0"
| "divide_number (Num a) NegInfinity = Num 0"
| "divide_number Infinity (Num b) = (if 0 \<le> b then Infinity else NegInfinity)"
| "divide_number NegInfinity (Num b) = (if 0 \<le> b then NegInfinity else Infinity)"
| "divide_number Infinity Infinity = NaN"
| "divide_number Infinity NegInfinity = NaN"
| "divide_number NegInfinity Infinity = NaN"
| "divide_number NegInfinity NegInfinity = NaN"
| "divide_number NaN y = NaN"
| "divide_number x NaN = NaN"

definition inverse_number :: "number \<Rightarrow> number" where
  "inverse_number x = divide (Num 1) x"

instance ..

end

text \<open>
  The comparisons of the source: \<open>js_gt x y\<close> is \<^verbatim>\<open>x > y\<close>, \<open>js_le x y\<close> is
  \<^verbatim>\<open>x <= y\<close>, \<open>js_ge x y\<close> is \<^verbatim>\<open>x >= y\<close> and \<open>js_eq x y\<close> is \<^verbatim>\<open>x === y\<close>.
  Each is false as soon as one side is \<open>NaN\<close>.
\<close>

fun js_gt :: "number \<Rightarrow> number \<Rightarrow> bool" where
  "js_gt (Num a) (Num b) = (b < a)"
| "js_gt (Num a) Infinity = False"
| "js_gt (Num a) NegInfinity = True"
| "js_gt Infinity (Num b) = True"
| "js_gt Infinity Infinity = False"
| "js_gt Infinity NegInfinity = True"
| "js_gt NegInfinity y = False"
| "js_gt NaN y = False"
| "js_gt x NaN = False"

fun js_le :: "number \<Rightarrow> number \<Rightarrow> bool" where
  "js_le (Num a) (Num b) = (a \<le> b)"
| "js_le (Num a) Infinity = True"
| "js_le (Num a) NegInfinity = False"
| "js_le Infinity (Num b) = False"
| "js_le Infinity Infinity = True"
| "js_le Infinity NegInfinity = False"
| "js_le NegInfinity (Num b) = True"
| "js_le NegInfinity Infinity = True"
| "js_le NegInfinity NegInfinity = True"
| "js_le NaN y = False"
| "js_le x NaN = False"

definition js_ge :: "number \<Rightarrow> number \<Rightarrow> bool" where
  "js_ge x y = js_le y x"

fun js_eq :: "number \<Rightarrow> number \<Rightarrow> bool" where
  "js_eq (Num a) (Num b) = (a = b)"
| "js_eq Infinity Infinity = True"
| "js_eq NegInfinity NegInfinity = True"
| "js_eq x y = False"

text \<open>\<^verbatim>\<open>Number.isFinite\<close>.\<close>

fun isFinite :: "number \<Rightarrow> bool" where
  "isFinite (Num a) = True"
| "isFinite x = False"

text \<open>
  \<^verbatim>\<open>Math.round\<close>: the nearest integer, a tie going up; the special values are returned
  as they are.
\<close>

fun Math_round :: "number \<Rightarrow> number" where
  "Math_round (Num a) = Num (of_int \<lfloor>a + 1 / 2\<rfloor>)"
| "Math_round x = x"

section \<open>The data of the calculator\<close>

datatype EfficacyScenario = Conservative | Base | Optimistic

text \<open>
  The numeric fields of the inputs hold finite numbers: the input handlers
  (\<^verbatim>\<open>handleNumberChange\<close>, \<^verbatim>\<open>handleFreshChange\<close>, \<^verbatim>\<open>handleHealthChange\<close>) store
  \<^verbatim>\<open>Number.isFinite(value) ? value : 0\<close>, and the defaults are finite. They are reals,
  and \<open>Num\<close> reads one as a number. The field \<^verbatim>\<open>count\<close> is \<open>count_ev\<close> here.
\<close>

record HealthEventInput =
  name :: string
  key :: string
  count_ev :: real
  costPerEvent :: real

record CalculatorState =
  milkingCows :: real
  freshPerYear :: real
  freshOverride :: bool
  replacementCost :: real
  salvageValue :: real
  milkPrice :: real
  lbMilkPerLbDM :: real
  dmCost :: real
  deathEvents :: real
  soldEvents :: real
  healthEvents :: "HealthEventInput list"

record ScenarioResult =
  scenario :: EfficacyScenario
  label :: string
  savingsAnnual :: number
  investmentAnnual :: number
  netProfitAnnual :: number
  roiRatio :: number
  returnPerCowYear :: number
  returnPerCowMonth :: number
  returnPerCowDay :: number
  monthsToBreakeven :: "number option"
  daysToBreakeven :: "number option"

definition defaultHealthEvents :: "HealthEventInput list" where
  "defaultHealthEvents =
    [\<lparr>name = ''Metritis'', key = ''metritis'', count_ev = 900, costPerEvent = 400\<rparr>,
     \<lparr>name = ''Mastitis'', key = ''mastitis'', count_ev = 2500, costPerEvent = 400\<rparr>,
     \<lparr>name = ''Clinical Hypocalcemia / Milk Fever'', key = ''milkFever'',
        count_ev = 150, costPerEvent = 275\<rparr>,
     \<lparr>name = ''Ketosis'', key = ''ketosis'', count_ev = 600, costPerEvent = 200\<rparr>,
     \<lparr>name = ''Retained Placenta'', key = ''retainedPlacenta'',
        count_ev = 400, costPerEvent = 330\<rparr>,
     \<lparr>name = ''Displaced Abomasum'', key = ''da'', count_ev = 150, costPerEvent = 640\<rparr>,
     \<lparr>name = ''Respiratory Disorders'', key = ''respiratory'',
        count_ev = 300, costPerEvent = 400\<rparr>,
     \<lparr>name = ''Digestive Disorders'', key = ''digestive'',
        count_ev = 400, costPerEvent = 250\<rparr>,
     \<lparr>name = ''Lameness'', key = ''lameness'', count_ev = 900, costPerEvent = 225\<rparr>]"

definition defaultState :: CalculatorState where
  "defaultState =
    \<lparr>milkingCows = 10000, freshPerYear = 13500, freshOverride = False,
     replacementCost = 3500, salvageValue = 2000, milkPrice = 20,
     lbMilkPerLbDM = 18 / 10, dmCost = 13 / 100,
     deathEvents = 700, soldEvents = 3000,
     healthEvents = defaultHealthEvents\<rparr>"

section \<open>The constants\<close>

definition DEATH_REDUCTION_BASE :: number where
  "DEATH_REDUCTION_BASE = Num (113 / 1000)"

definition CULLING_VOLUNTARY_REDUCTION_BASE :: number where
  "CULLING_VOLUNTARY_REDUCTION_BASE = Num (666 / 10000)"

definition CULLING_SOLD_REDUCTION_BASE :: number where
  "CULLING_SOLD_REDUCTION_BASE = Num (113 / 1000)"

definition HEALTH_EVENT_REDUCTION_BASE :: number where
  "HEALTH_EVENT_REDUCTION_BASE = Num (549 / 1000)"

definition PRODUCTION_GAIN_PERCENT_BASE :: number where
  "PRODUCTION_GAIN_PERCENT_BASE = Num (494 / 100)"

fun SCENARIO_MULTIPLIERS :: "EfficacyScenario \<Rightarrow> number" where
  "SCENARIO_MULTIPLIERS Conservative = Num (75 / 100)"
| "SCENARIO_MULTIPLIERS Base = Num 1"
| "SCENARIO_MULTIPLIERS Optimistic = Num (125 / 100)"

fun SCENARIO_LABELS :: "EfficacyScenario \<Rightarrow> string" where
  "SCENARIO_LABELS Conservative = ''Conservative''"
| "SCENARIO_LABELS Base = ''Base''"
| "SCENARIO_LABELS Optimistic = ''Optimistic''"

section \<open>computeScenario\<close>

text \<open>
  The body of \<^verbatim>\<open>computeScenario\<close> is one sequence of constants. Its four savings
  sections are given as functions of the state and the scenario, in the order and with
  the names of the source; \<open>computeScenario\<close> below adds the labor and investment
  section and the totals.
\<close>

definition fresh :: "CalculatorState \<Rightarrow> number" where
  "fresh state =
    (if freshOverride state then Num (freshPerYear state)
     else Math_round (Num (milkingCows state) * Num (135 / 100)))"

text \<open>Death events.\<close>

definition deathSavings :: "CalculatorState \<Rightarrow> EfficacyScenario \<Rightarrow> number" where
  "deathSavings state scen =
    (let m = Num (milkingCows state);
         mult = SCENARIO_MULTIPLIERS scen;
         deathIncidence = Num (deathEvents state) / m;
         deathReduction = DEATH_REDUCTION_BASE * mult;
         newDeathIncidence = deathIncidence * (Num 1 - deathReduction);
         newDeathEvents =
           (if js_eq deathIncidence (Num 0) then Num (deathEvents state)
            else (Num (deathEvents state) * newDeathIncidence) / deathIncidence);
         deathEventsAvoided = Num (deathEvents state) - newDeathEvents
     in deathEventsAvoided * Num (salvageValue state))"

text \<open>Culling. \<open>cullingRate\<close> and \<open>newCullingRate\<close> are computed and not used.\<close>

definition cullingSavings :: "CalculatorState \<Rightarrow> EfficacyScenario \<Rightarrow> number" where
  "cullingSavings state scen =
    (let mult = SCENARIO_MULTIPLIERS scen;
         cullingRate = (Num (deathEvents state) + Num (soldEvents state)) / fresh state;
         soldRate = Num (soldEvents state) / fresh state;
         voluntaryReduction = CULLING_VOLUNTARY_REDUCTION_BASE * mult;
         soldReduction = CULLING_SOLD_REDUCTION_BASE * mult;
         newCullingRate = cullingRate * (Num 1 - voluntaryReduction);
         newSoldRate = soldRate * (Num 1 - soldReduction);
         cullingVoluntaryDeltaRate = soldRate - newSoldRate
     in cullingVoluntaryDeltaRate * Num (soldEvents state)
          * (Num (replacementCost state) - Num (salvageValue state)))"

text \<open>Health events: \<^verbatim>\<open>reduce\<close> from the left, starting at 0.\<close>

definition healthSavings :: "CalculatorState \<Rightarrow> EfficacyScenario \<Rightarrow> number" where
  "healthSavings state scen =
    (let mult = SCENARIO_MULTIPLIERS scen
     in foldl (\<lambda>acc ev.
          let reduction = HEALTH_EVENT_REDUCTION_BASE * mult;
              eventsAvoided = Num (count_ev ev) * reduction;
              savings = eventsAvoided * Num (costPerEvent ev)
          in acc + savings) (Num 0) (healthEvents state))"

text \<open>Production (income over feed cost), over 210 days.\<close>

definition productionSavingsAnnual :: "CalculatorState \<Rightarrow> EfficacyScenario \<Rightarrow> number" where
  "productionSavingsAnnual state scen =
    (let m = Num (milkingCows state);
         mult = SCENARIO_MULTIPLIERS scen;
         gainPercent = PRODUCTION_GAIN_PERCENT_BASE * mult;
         extraRevenuePerCowDay = (gainPercent * Num (milkPrice state)) / Num 100;
         extraDMLbPerCowDay = gainPercent / Num (lbMilkPerLbDM state);
         extraDMCostPerCowDay = extraDMLbPerCowDay * Num (dmCost state);
         netIOFCPerCowDay = extraRevenuePerCowDay - extraDMCostPerCowDay
     in netIOFCPerCowDay * m * Num 210)"

definition computeScenario :: "CalculatorState \<Rightarrow> EfficacyScenario \<Rightarrow> ScenarioResult" where
  "computeScenario state scen =
    (let m = Num (milkingCows state);
         wagePerHour = Num 20;
         monthlyHours = Num 22 * Num 30;
         laborChangeFraction = Num (1 / 10);
         changedHoursPerMonth = monthlyHours * laborChangeFraction;
         laborCostPerMonth = changedHoursPerMonth * wagePerHour;
         laborCostAnnual = laborCostPerMonth * Num 12;
         costPerDose = Num (45 / 10);
         applicatorCost = Num 40;
         applicatorCount = Num 3;
         applicationsPerYear = Num 1;
         productCostAnnual = m * costPerDose * applicationsPerYear;
         applicatorInvestment = applicatorCost * applicatorCount;
         investment = productCostAnnual + applicatorInvestment + laborCostAnnual;
         totalSavingsAnnual =
           deathSavings state scen + cullingSavings state scen
             + healthSavings state scen + productionSavingsAnnual state scen;
         netProfit = totalSavingsAnnual - investment;
         roi = (if js_gt investment (Num 0) then totalSavingsAnnual / investment else Num 0);
         perCowYear = netProfit / m;
         perCowMonth = perCowYear / Num 12;
         perCowDay = perCowMonth / Num 30;
         breakeven = js_gt totalSavingsAnnual (Num 0) \<and> js_gt investment (Num 0)
     in \<lparr>scenario = scen,
         label = SCENARIO_LABELS scen,
         savingsAnnual = totalSavingsAnnual,
         investmentAnnual = investment,
         netProfitAnnual = netProfit,
         roiRatio = roi,
         returnPerCowYear = perCowYear,
         returnPerCowMonth = perCowMonth,
         returnPerCowDay = perCowDay,
         monthsToBreakeven =
           (if breakeven then Some ((investment / totalSavingsAnnual) * Num 12) else None),
         daysToBreakeven =
           (if breakeven then Some ((investment / totalSavingsAnnual) * Num 365) else None)\<rparr>)"

section \<open>Binary64 rounding\<close>

text \<open>
  \<open>rne\<close> rounds a real to the nearest integer, a tie going to the even one.
  \<open>expo x\<close> is the binary exponent of \<open>x \<noteq> 0\<close>, the integer \<open>e\<close> with
  \<open>2^e \<le> |x| < 2^(e+1)\<close>, computed from the bit length of an integer.
\<close>

definition rne :: "real \<Rightarrow> int" where
  "rne q =
    (let f = \<lfloor>q\<rfloor>; d = q - of_int f
     in if d < 1 / 2 then f else if 1 / 2 < d then f + 1
        else if even f then f else f + 1)"

definition expo :: "real \<Rightarrow> int" where
  "expo x =
    (if 1 \<le> \<bar>x\<bar> then bitlen \<lfloor>\<bar>x\<bar>\<rfloor> - 1
     else - bitlen (\<lceil>1 / \<bar>x\<bar>\<rceil> - 1))"

text \<open>
  \<open>round64\<close> is the rounding of IEEE 754 binary64, to nearest with ties to even: 53
  significant bits, the exponent not below \<open>-1022\<close> (so that the spacing never goes
  under \<open>2^-1074\<close>, the subnormal numbers), and an infinity when the rounded
  magnitude reaches \<open>2^1024\<close>.
\<close>

definition round64 :: "real \<Rightarrow> number" where
  "round64 x =
    (if x = 0 then Num 0
     else let e = max (expo x) (- 1022);
              u = 2 powi (e - 52);
              r = of_int (rne (x / u)) * u
          in if 2 powi 1024 \<le> \<bar>r\<bar> then (if 0 < x then Infinity else NegInfinity)
             else Num r)"

text \<open>
  \<open>fl\<close> rounds a number; the special values are kept. A sum or a product of the
  source is the rounded exact one, and a numeric literal of the source is the rounded
  decimal.
\<close>

fun fl :: "number \<Rightarrow> number" where
  "fl (Num r) = round64 r"
| "fl x = x"




section \<open>Auxiliary notions\<close>

text \<open>The multiplier of a scenario, the effective fresh count and the summed
  \<open>count * costPerEvent\<close> of the health events, as reals.\<close>

fun multiplier :: "EfficacyScenario \<Rightarrow> real" where
  "multiplier Conservative = 75 / 100"
| "multiplier Base = 1"
| "multiplier Optimistic = 125 / 100"

definition freshCount :: "CalculatorState \<Rightarrow> real" where
  "freshCount state =
    (if freshOverride state then freshPerYear state
     else of_int \<lfloor>milkingCows state * (135 / 100) + 1 / 2\<rfloor>)"

definition eventCost :: "HealthEventInput list \<Rightarrow> real" where
  "eventCost evs = (\<Sum>ev\<leftarrow>evs. count_ev ev * costPerEvent ev)"



section \<open>Arithmetic of numbers\<close>

lemma plus_NaN_right [simp]: "x + NaN = NaN"
  by (cases x) simp_all

lemma times_NaN_right [simp]: "x * NaN = NaN"
  by (cases x) simp_all

lemma divide_NaN_right [simp]: "x / NaN = NaN"
  by (cases x) simp_all

lemma minus_NaN_right [simp]: "x - NaN = NaN"
  by (simp add: minus_number_def)

lemma minus_NaN_left [simp]: "NaN - x = NaN"
  by (simp add: minus_number_def)

lemma minus_Num [simp]: "Num a - Num b = Num (a - b)"
  by (simp add: minus_number_def)

lemma SCENARIO_MULTIPLIERS_Num: "SCENARIO_MULTIPLIERS scen = Num (multiplier scen)"
  by (cases scen) simp_all

lemma multiplier_le: "multiplier scen \<le> 5 / 4"
  by (cases scen) simp_all

lemma fresh_Num: "fresh state = Num (freshCount state)"
  by (simp add: fresh_def freshCount_def)

section \<open>The four savings terms in closed form\<close>

text \<open>With no cow the death savings are \<open>NaN\<close>: the incidence is \<open>deathEvents / 0\<close>, an
  infinity or \<open>NaN\<close>, it is not \<open>=== 0\<close>, and the quotient of the else branch is
  \<open>Infinity / Infinity\<close> or has a \<open>NaN\<close> operand.\<close>

lemma deathSavings_eq:
  "deathSavings state scen =
    (if milkingCows state = 0 then NaN
     else Num (deathEvents state * (113 / 1000 * multiplier scen) * salvageValue state))"
proof -
  have r: "0 < 1 - 113 / 1000 * multiplier scen"
    using multiplier_le [of scen] by simp
  show ?thesis
    using r
    by (auto simp: deathSavings_def Let_def DEATH_REDUCTION_BASE_def
        SCENARIO_MULTIPLIERS_Num minus_number_def field_simps)
qed

text \<open>With a fresh count of 0 the culling savings are \<open>NaN\<close>: the sold rate is
  \<open>soldEvents / 0\<close>, and the delta rate is \<open>Infinity - Infinity\<close> or has a \<open>NaN\<close> operand.\<close>

lemma cullingSavings_eq:
  "cullingSavings state scen =
    (if freshCount state = 0 then NaN
     else Num (soldEvents state / freshCount state * (113 / 1000 * multiplier scen)
               * soldEvents state * (replacementCost state - salvageValue state)))"
proof -
  have r: "0 < 1 - 113 / 1000 * multiplier scen"
    using multiplier_le [of scen] by simp
  show ?thesis
    using r
    by (auto simp: cullingSavings_def Let_def CULLING_SOLD_REDUCTION_BASE_def
        CULLING_VOLUNTARY_REDUCTION_BASE_def fresh_Num
        SCENARIO_MULTIPLIERS_Num minus_number_def field_simps)
qed

lemma health_foldl:
  "foldl (\<lambda>acc ev. acc + Num (count_ev ev) * Num r * Num (costPerEvent ev)) (Num a) evs
     = Num (a + r * eventCost evs)"
  by (induction evs arbitrary: a) (simp_all add: eventCost_def algebra_simps)

lemma healthSavings_eq:
  "healthSavings state scen =
     Num (549 / 1000 * multiplier scen * eventCost (healthEvents state))"
  using health_foldl [of "549 / 1000 * multiplier scen" 0 "healthEvents state"]
  by (simp add: healthSavings_def Let_def HEALTH_EVENT_REDUCTION_BASE_def
      SCENARIO_MULTIPLIERS_Num)

section \<open>The fields of the result\<close>

lemma savingsAnnual_eq:
  "savingsAnnual (computeScenario state scen) =
     deathSavings state scen + cullingSavings state scen
       + healthSavings state scen + productionSavingsAnnual state scen"
  by (simp add: computeScenario_def Let_def)

lemma investmentAnnual_eq:
  "investmentAnnual (computeScenario state scen) =
     Num (milkingCows state * (45 / 10) + 120 + 15840)"
  by (simp add: computeScenario_def Let_def)

lemma netProfitAnnual_eq:
  "netProfitAnnual (computeScenario state scen) =
     savingsAnnual (computeScenario state scen) - investmentAnnual (computeScenario state scen)"
  by (simp add: computeScenario_def Let_def)

lemma roiRatio_eq:
  "roiRatio (computeScenario state scen) =
     (if js_gt (investmentAnnual (computeScenario state scen)) (Num 0)
      then savingsAnnual (computeScenario state scen) / investmentAnnual (computeScenario state scen)
      else Num 0)"
  by (simp add: computeScenario_def Let_def)

lemma returnPerCow_eq:
  "returnPerCowYear (computeScenario state scen) =
     netProfitAnnual (computeScenario state scen) / Num (milkingCows state)"
  "returnPerCowMonth (computeScenario state scen) =
     returnPerCowYear (computeScenario state scen) / Num 12"
  "returnPerCowDay (computeScenario state scen) =
     returnPerCowMonth (computeScenario state scen) / Num 30"
  by (simp_all add: computeScenario_def Let_def)

lemma breakeven_eq:
  "monthsToBreakeven (computeScenario state scen) =
     (if js_gt (savingsAnnual (computeScenario state scen)) (Num 0)
         \<and> js_gt (investmentAnnual (computeScenario state scen)) (Num 0)
      then Some ((investmentAnnual (computeScenario state scen)
                   / savingsAnnual (computeScenario state scen)) * Num 12)
      else None)"
  "daysToBreakeven (computeScenario state scen) =
     (if js_gt (savingsAnnual (computeScenario state scen)) (Num 0)
         \<and> js_gt (investmentAnnual (computeScenario state scen)) (Num 0)
      then Some ((investmentAnnual (computeScenario state scen)
                   / savingsAnnual (computeScenario state scen)) * Num 365)
      else None)"
  by (simp_all add: computeScenario_def Let_def)

lemma savingsAnnual_emptyHerd:
  "milkingCows state = 0 \<Longrightarrow> savingsAnnual (computeScenario state scen) = NaN"
  by (simp add: savingsAnnual_eq deathSavings_eq)

lemma savingsAnnual_noFresh:
  "freshCount state = 0 \<Longrightarrow> savingsAnnual (computeScenario state scen) = NaN"
  by (simp add: savingsAnnual_eq cullingSavings_eq)

lemma savingsAnnual_defaultState_Base:
  "savingsAnnual (computeScenario defaultState Base) = Num (33468689 / 12)"
  by (simp add: savingsAnnual_eq deathSavings_eq cullingSavings_eq healthSavings_eq
      productionSavingsAnnual_def Let_def PRODUCTION_GAIN_PERCENT_BASE_def
      freshCount_def eventCost_def defaultState_def defaultHealthEvents_def)

lemma investmentAnnual_defaultState:
  "investmentAnnual (computeScenario defaultState scen) = Num 60960"
  by (simp add: investmentAnnual_eq defaultState_def)


text \<open>The result reads the health events through \<open>eventCost\<close> only.\<close>

lemma eventCost_neutral:
  "count_ev ev = 0 \<or> costPerEvent ev = 0 \<Longrightarrow> eventCost (xs @ ev # ys) = eventCost (xs @ ys)"
  by (auto simp: eventCost_def)

lemma computeScenario_healthEvents:
  assumes "eventCost evs' = eventCost evs"
  shows "computeScenario (state\<lparr>healthEvents := evs'\<rparr>) scen
       = computeScenario (state\<lparr>healthEvents := evs\<rparr>) scen"
proof -
  have d: "deathSavings (state\<lparr>healthEvents := xs\<rparr>) scen = deathSavings state scen" for xs
    by (simp add: deathSavings_def)
  have c: "cullingSavings (state\<lparr>healthEvents := xs\<rparr>) scen = cullingSavings state scen" for xs
    by (simp add: cullingSavings_def fresh_def)
  have p: "productionSavingsAnnual (state\<lparr>healthEvents := xs\<rparr>) scen
         = productionSavingsAnnual state scen" for xs
    by (simp add: productionSavingsAnnual_def)
  have h: "healthSavings (state\<lparr>healthEvents := evs'\<rparr>) scen
         = healthSavings (state\<lparr>healthEvents := evs\<rparr>) scen"
    by (simp add: healthSavings_eq assms)
  show ?thesis
    by (simp add: computeScenario_def d c p h)
qed

section \<open>The savings of the default herd\<close>






section \<open>Properties of the rounding\<close>

lemma rne_of_int [simp]: "rne (of_int n) = n"
  by (simp add: rne_def)

lemma rne_bounds:
  assumes "of_int a \<le> q" and "q \<le> of_int b"
  shows "a \<le> rne q \<and> rne q \<le> b"
proof -
  have f: "a \<le> \<lfloor>q\<rfloor>" "\<lfloor>q\<rfloor> \<le> b"
    using assms by (simp_all add: le_floor_iff floor_le_iff)
  have "\<lfloor>q\<rfloor> < b" if "q - of_int \<lfloor>q\<rfloor> > 0"
  proof -
    have "of_int \<lfloor>q\<rfloor> < (of_int b :: real)"
      using that assms(2) by linarith
    then show ?thesis by simp
  qed
  then show ?thesis
    using f by (auto simp: rne_def Let_def)
qed

lemma expo_bounds:
  assumes "x \<noteq> 0"
  shows "2 powi (expo x) \<le> \<bar>x\<bar> \<and> \<bar>x\<bar> < 2 powi (expo x + 1)"
proof (cases "1 \<le> \<bar>x\<bar>")
  case True
  let ?f = "\<lfloor>\<bar>x\<bar>\<rfloor>"
  have f: "0 < ?f" using True by simp
  have b: "1 \<le> bitlen ?f" using f by (simp add: bitlen_alt_def)
  have e: "expo x = bitlen ?f - 1" using True by (simp add: expo_def)
  from bitlen_bounds [OF f]
  have lo: "2 ^ nat (bitlen ?f - 1) \<le> ?f" and hi: "?f < 2 ^ nat (bitlen ?f)" by simp_all
  have fb: "of_int ?f \<le> \<bar>x\<bar>" "\<bar>x\<bar> < of_int ?f + 1"
    by linarith+
  have p1: "(2::real) powi (bitlen ?f - 1) = 2 ^ nat (bitlen ?f - 1)"
    using b by (simp add: power_int_def)
  have p2: "(2::real) powi (bitlen ?f) = 2 ^ nat (bitlen ?f)"
    using b by (simp add: power_int_def)
  have r1: "(2::real) ^ nat (bitlen ?f - 1) \<le> of_int ?f"
    using lo by (metis of_int_le_iff of_int_numeral of_int_power)
  have 1: "(2::real) powi (bitlen ?f - 1) \<le> \<bar>x\<bar>"
    unfolding p1 using r1 fb(1) by linarith
  have "?f + 1 \<le> 2 ^ nat (bitlen ?f)" using hi by simp
  then have "of_int (?f + 1) \<le> (2::real) ^ nat (bitlen ?f)"
    by (metis of_int_le_iff of_int_numeral of_int_power)
  then have r2: "of_int ?f + 1 \<le> (2::real) ^ nat (bitlen ?f)"
    by simp
  have 2: "\<bar>x\<bar> < (2::real) powi (bitlen ?f)"
    unfolding p2 using r2 fb(2) by linarith
  from 1 2 e show ?thesis by simp
next
  case False
  let ?y = "1 / \<bar>x\<bar>"
  let ?c = "\<lceil>?y\<rceil>"
  have x: "0 < \<bar>x\<bar>" "\<bar>x\<bar> < 1" using assms False by simp_all
  have y: "1 < ?y" using x by simp
  have c: "0 < ?c - 1" using y by (simp add: less_ceiling_iff)
  have b: "1 \<le> bitlen (?c - 1)" using c by (simp add: bitlen_alt_def)
  have e: "expo x = - bitlen (?c - 1)" using False by (simp add: expo_def)
  from bitlen_bounds [OF c]
  have lo: "2 ^ nat (bitlen (?c - 1) - 1) \<le> ?c - 1" and hi: "?c - 1 < 2 ^ nat (bitlen (?c - 1))"
    by simp_all
  have "(2::real) ^ nat (bitlen (?c - 1) - 1) \<le> of_int (?c - 1)"
    using lo by (metis of_int_le_iff of_int_numeral of_int_power)
  moreover have "of_int (?c - 1) < ?y" by (simp add: ceiling_correct)
  ultimately have 1: "(2::real) ^ nat (bitlen (?c - 1) - 1) < ?y" by linarith
  have "?c \<le> 2 ^ nat (bitlen (?c - 1))" using hi by simp
  then have "of_int ?c \<le> (2::real) ^ nat (bitlen (?c - 1))"
    by (metis of_int_le_iff of_int_numeral of_int_power)
  then have 2: "?y \<le> (2::real) ^ nat (bitlen (?c - 1))"
    using le_of_int_ceiling [of ?y] by linarith
  have p: "(2::real) powi (- bitlen (?c - 1)) = 1 / 2 ^ nat (bitlen (?c - 1))"
    using b by (simp add: power_int_def field_simps)
  have q: "(2::real) powi (- bitlen (?c - 1) + 1) = 1 / 2 ^ nat (bitlen (?c - 1) - 1)"
    using b by (simp add: power_int_def field_simps nat_diff_distrib)
  have "1 / 2 ^ nat (bitlen (?c - 1)) \<le> \<bar>x\<bar>"
    using 2 x by (simp add: field_simps)
  moreover have "\<bar>x\<bar> < 1 / 2 ^ nat (bitlen (?c - 1) - 1)"
    using 1 x by (simp add: field_simps)
  ultimately show ?thesis
    by (simp only: e p q)
qed

lemma rne_abs_bounds:
  assumes "of_int a \<le> \<bar>q\<bar>" and "\<bar>q\<bar> \<le> of_int b" and "0 \<le> a"
  shows "a \<le> \<bar>rne q\<bar> \<and> \<bar>rne q\<bar> \<le> b"
proof (cases "0 \<le> q")
  case True
  then show ?thesis
    using rne_bounds [of a q b] assms by simp
next
  case False
  then show ?thesis
    using rne_bounds [of "- b" q "- a"] assms by simp
qed

lemma pow2_less_cancel: "(2::real) powi a < 2 powi b \<Longrightarrow> a < b"
  using power_int_increasing [of b a "2::real"] by (cases "a < b") simp_all

lemma expo_unique:
  assumes "2 powi k \<le> \<bar>x\<bar>" and "\<bar>x\<bar> < 2 powi (k + 1)"
  shows "expo x = k"
proof -
  have p: "(0::real) < 2 powi k" by simp
  have "x \<noteq> 0"
  proof
    assume "x = 0"
    with assms(1) have "(2::real) powi k \<le> 0" by simp
    with p show False by linarith
  qed
  from expo_bounds [OF this]
  have b: "2 powi (expo x) \<le> \<bar>x\<bar>" "\<bar>x\<bar> < 2 powi (expo x + 1)" by simp_all
  have "expo x < k + 1"
    using b(1) assms(2) by (intro pow2_less_cancel) linarith
  moreover have "k < expo x + 1"
    using b(2) assms(1) by (intro pow2_less_cancel) linarith
  ultimately show ?thesis by simp
qed

lemma expo_less:
  assumes "x \<noteq> 0" and "\<bar>x\<bar> < 2 powi k"
  shows "expo x < k"
  using expo_bounds [OF assms(1)] assms(2) by (intro pow2_less_cancel) linarith

lemma round64_grid:
  assumes r: "r = of_int m * 2 powi (k - 52)"
    and k: "- 1022 \<le> k"
    and m: "\<bar>m\<bar> < 2 ^ 53"
    and n: "k = - 1022 \<or> 2 ^ 52 \<le> \<bar>m\<bar>"
    and fin: "\<bar>r\<bar> < 2 powi 1024"
  shows "round64 r = Num r"
proof (cases "m = 0")
  case True
  then show ?thesis using r by (simp add: round64_def)
next
  case False
  let ?u = "(2::real) powi (k - 52)"
  have u: "0 < ?u" by simp
  have r0: "r \<noteq> 0" using False r by simp
  have ar: "\<bar>r\<bar> = of_int \<bar>m\<bar> * ?u"
    using r by (simp add: abs_mult)
  have k0: "(2::real) powi k = 2 ^ 52 * ?u"
    by (simp add: power_int_diff)
  have k1: "(2::real) powi (k + 1) = 2 ^ 53 * ?u"
    by (simp add: power_int_diff power_int_add)
  have hi: "\<bar>r\<bar> < 2 powi (k + 1)"
  proof -
    have "(of_int \<bar>m\<bar> :: real) < 2 ^ 53"
      using m by (metis of_int_less_iff of_int_numeral of_int_power)
    then show ?thesis
      unfolding ar k1 using u by simp
  qed
  have e: "max (expo r) (- 1022) = k"
  proof (cases "2 ^ 52 \<le> \<bar>m\<bar>")
    case True
    have "(2::real) ^ 52 \<le> of_int \<bar>m\<bar>"
      using True by (metis of_int_le_iff of_int_numeral of_int_power)
    then have "2 powi k \<le> \<bar>r\<bar>"
      unfolding ar k0 using u by simp
    then have "expo r = k" using hi by (rule expo_unique)
    then show ?thesis using k by simp
  next
    case False
    then have k': "k = - 1022" using n by simp
    have "(of_int \<bar>m\<bar> :: real) < 2 ^ 52"
      using False by (metis not_le of_int_less_iff of_int_numeral of_int_power)
    then have "\<bar>r\<bar> < 2 powi k"
      unfolding ar k0 using u by simp
    then have "expo r < k" using r0 by (intro expo_less)
    then show ?thesis using k' by simp
  qed
  have q: "of_int (rne (r / ?u)) * ?u = r"
    using r by simp
  have nf: "\<not> 2 powi 1024 \<le> \<bar>r\<bar>"
    using fin by simp
  show ?thesis
    unfolding round64_def Let_def e q using r0 nf by (simp only: if_False)
qed

lemma round64_idem:
  assumes "round64 x = Num r"
  shows "round64 r = Num r"
proof (cases "x = 0")
  case True
  then show ?thesis using assms by (simp add: round64_def)
next
  case False
  define E where "E = max (expo x) (- 1022)"
  define u where "u = (2::real) powi (E - 52)"
  define n where "n = rne (x / u)"
  have u: "0 < u" by (simp add: u_def)
  have E: "- 1022 \<le> E" "expo x \<le> E" by (simp_all add: E_def)
  from assms False have fin: "\<bar>r\<bar> < 2 powi 1024" and r: "r = of_int n * u"
    by (auto simp: round64_def Let_def E_def [symmetric] u_def [symmetric] n_def [symmetric]
        split: if_splits)
  from expo_bounds [OF False]
  have xb: "2 powi (expo x) \<le> \<bar>x\<bar>" "\<bar>x\<bar> < 2 powi (expo x + 1)" by simp_all
  have E1: "(2::real) powi (E + 1) = 2 ^ 53 * u"
    by (simp add: u_def power_int_diff power_int_add)
  have E0: "(2::real) powi E = 2 ^ 52 * u"
    by (simp add: u_def power_int_diff)
  have "\<bar>x\<bar> < 2 powi (E + 1)"
    using xb(2) power_int_increasing [of "expo x + 1" "E + 1" "2::real"] E(2) by simp
  then have q53: "\<bar>x / u\<bar> \<le> of_int (2 ^ 53)"
    unfolding E1 using u by (simp add: field_simps)
  have n53: "\<bar>n\<bar> \<le> 2 ^ 53"
    using rne_abs_bounds [of 0 "x / u" "2 ^ 53"] q53 by (simp add: n_def)
  show ?thesis
  proof (cases "\<bar>n\<bar> = 2 ^ 53")
    case True
    then consider "n = 2 ^ 53" | "n = - (2 ^ 53)" by linarith
    then obtain m where m: "n = 2 * m" "\<bar>m\<bar> = 2 ^ 52"
    proof cases
      case 1
      then have "n = 2 * 2 ^ 52" "\<bar>(2::int) ^ 52\<bar> = 2 ^ 52" by simp_all
      then show ?thesis by (rule that)
    next
      case 2
      then have "n = 2 * (- (2 ^ 52))" "\<bar>- ((2::int) ^ 52)\<bar> = 2 ^ 52" by simp_all
      then show ?thesis by (rule that)
    qed
    have u2: "(2::real) powi ((E + 1) - 52) = 2 * u"
      by (simp add: u_def power_int_diff power_int_add)
    have "r = of_int m * 2 powi ((E + 1) - 52)"
      unfolding u2 r m(1) by simp
    then show ?thesis
      using E(1) fin m(2) by (intro round64_grid [of r m "E + 1"]) simp_all
  next
    case False
    then have lt: "\<bar>n\<bar> < 2 ^ 53" using n53 by simp
    have "E = - 1022 \<or> 2 ^ 52 \<le> \<bar>n\<bar>"
    proof (cases "E = - 1022")
      case True
      then show ?thesis by simp
    next
      case False
      then have "E = expo x" by (simp add: E_def max_def split: if_splits)
      then have "2 ^ 52 * u \<le> \<bar>x\<bar>" using xb(1) E0 by simp
      then have "of_int (2 ^ 52) \<le> \<bar>x / u\<bar>"
        using u by (simp add: field_simps)
      then have "2 ^ 52 \<le> \<bar>n\<bar>"
        using rne_abs_bounds [of "2 ^ 52" "x / u" "2 ^ 53"] q53 by (simp add: n_def)
      then show ?thesis by simp
    qed
    then show ?thesis
      using E(1) fin lt r by (intro round64_grid [of r n E]) (simp_all add: u_def)
  qed
qed

lemma fl_fl [simp]: "fl (fl x) = fl x"
proof (cases x)
  case (Num a)
  then show ?thesis
    by (cases "round64 a") (simp_all add: round64_idem)
qed simp_all


lemma plus_number_zero [simp]: "Num 0 + x = x"
  by (cases x) simp_all




lemma round64_HEALTH:
  "fl HEALTH_EVENT_REDUCTION_BASE = Num (4944952390852805 / 2 ^ 53)"
  by (simp add: HEALTH_EVENT_REDUCTION_BASE_def round64_def rne_def expo_def
      compute_bitlen Let_def)




section \<open>The claims\<close>

subsection \<open>C1: a herd of no cow\<close>

text \<open>
  C1 (amended). For every input with \<open>milkingCows = 0\<close> and every scenario,
  \<open>investmentAnnual\<close> is the finite number 15960 and both breakeven fields are null;
  \<open>savingsAnnual\<close>, \<open>netProfitAnnual\<close>, \<open>roiRatio\<close>, \<open>returnPerCowYear\<close>,
  \<open>returnPerCowMonth\<close> and \<open>returnPerCowDay\<close> are \<open>NaN\<close>. \<open>computeScenario\<close> divides by
  \<open>milkingCows\<close> unguarded; the formatters render a non-finite number as a dash.
\<close>

theorem milkingCows_zero_fields:
  assumes "milkingCows state = 0"
  shows "investmentAnnual (computeScenario state scen) = Num 15960
       \<and> monthsToBreakeven (computeScenario state scen) = None
       \<and> daysToBreakeven (computeScenario state scen) = None
       \<and> savingsAnnual (computeScenario state scen) = NaN
       \<and> netProfitAnnual (computeScenario state scen) = NaN
       \<and> roiRatio (computeScenario state scen) = NaN
       \<and> returnPerCowYear (computeScenario state scen) = NaN
       \<and> returnPerCowMonth (computeScenario state scen) = NaN
       \<and> returnPerCowDay (computeScenario state scen) = NaN"
proof -
  have s: "savingsAnnual (computeScenario state scen) = NaN"
    using assms by (rule savingsAnnual_emptyHerd)
  have i: "investmentAnnual (computeScenario state scen) = Num 15960"
    using assms by (simp add: investmentAnnual_eq)
  have n: "netProfitAnnual (computeScenario state scen) = NaN"
    by (simp add: netProfitAnnual_eq s)
  have y: "returnPerCowYear (computeScenario state scen) = NaN"
    by (simp add: returnPerCow_eq(1) n)
  have mo: "returnPerCowMonth (computeScenario state scen) = NaN"
    by (simp add: returnPerCow_eq(2) y)
  have d: "returnPerCowDay (computeScenario state scen) = NaN"
    by (simp add: returnPerCow_eq(3) mo)
  have r: "roiRatio (computeScenario state scen) = NaN"
    by (simp add: roiRatio_eq s i)
  have b: "monthsToBreakeven (computeScenario state scen) = None"
          "daysToBreakeven (computeScenario state scen) = None"
    by (simp_all add: breakeven_eq s)
  from s i n y mo d r b show ?thesis by simp
qed

theorem milkingCows_zero_fields_witness:
  "milkingCows (defaultState\<lparr>milkingCows := 0\<rparr>) = 0
   \<and> investmentAnnual (computeScenario (defaultState\<lparr>milkingCows := 0\<rparr>) Base) = Num 15960
   \<and> savingsAnnual (computeScenario (defaultState\<lparr>milkingCows := 0\<rparr>) Base) = NaN
   \<and> returnPerCowDay (computeScenario (defaultState\<lparr>milkingCows := 0\<rparr>) Base) = NaN
   \<and> daysToBreakeven (computeScenario (defaultState\<lparr>milkingCows := 0\<rparr>) Base) = None"
  using milkingCows_zero_fields [of "defaultState\<lparr>milkingCows := 0\<rparr>" Base]
  by simp

text \<open>C1 as stated fails on the default herd with its cows set to 0: the savings, and
  with them the return per cow, are \<open>NaN\<close>.\<close>

theorem milkingCows_zero_counterexample:
  "milkingCows (defaultState\<lparr>milkingCows := 0\<rparr>) = 0
   \<and> savingsAnnual (computeScenario (defaultState\<lparr>milkingCows := 0\<rparr>) Optimistic) = NaN
   \<and> \<not> isFinite (returnPerCowYear (computeScenario (defaultState\<lparr>milkingCows := 0\<rparr>) Optimistic))"
  by (simp add: savingsAnnual_emptyHerd returnPerCow_eq(1) netProfitAnnual_eq)

subsection \<open>C2: a fresh count of 0\<close>

text \<open>
  C2 (amended). For every input with \<open>freshOverride = true\<close>, \<open>freshPerYear = 0\<close> and
  \<open>soldEvents \<noteq> 0\<close>, and for every scenario, the culling-savings term is \<open>NaN\<close>, and so
  is \<open>savingsAnnual\<close>: \<open>computeScenario\<close> divides by the fresh count unguarded.
\<close>

theorem fresh_zero_cullingSavings:
  assumes "freshOverride state" and "freshPerYear state = 0" and "soldEvents state \<noteq> 0"
  shows "cullingSavings state scen = NaN
       \<and> savingsAnnual (computeScenario state scen) = NaN"
proof -
  have "freshCount state = 0"
    using assms by (simp add: freshCount_def)
  then show ?thesis
    by (simp add: cullingSavings_eq savingsAnnual_noFresh)
qed

theorem fresh_zero_cullingSavings_witness:
  "freshOverride (defaultState\<lparr>freshPerYear := 0, freshOverride := True\<rparr>)
   \<and> freshPerYear (defaultState\<lparr>freshPerYear := 0, freshOverride := True\<rparr>) = 0
   \<and> soldEvents (defaultState\<lparr>freshPerYear := 0, freshOverride := True\<rparr>) \<noteq> 0
   \<and> cullingSavings (defaultState\<lparr>freshPerYear := 0, freshOverride := True\<rparr>) Base = NaN
   \<and> savingsAnnual (computeScenario (defaultState\<lparr>freshPerYear := 0, freshOverride := True\<rparr>) Base) = NaN"
  using fresh_zero_cullingSavings [of "defaultState\<lparr>freshPerYear := 0, freshOverride := True\<rparr>" Base]
  by (simp add: defaultState_def)

text \<open>C2 as stated fails on the default herd (3000 sold) with the fresh count
  overridden to 0: the culling savings are not 0.\<close>

theorem fresh_zero_counterexample:
  "freshOverride (defaultState\<lparr>freshPerYear := 0, freshOverride := True\<rparr>)
   \<and> freshPerYear (defaultState\<lparr>freshPerYear := 0, freshOverride := True\<rparr>) = 0
   \<and> soldEvents (defaultState\<lparr>freshPerYear := 0, freshOverride := True\<rparr>) \<noteq> 0
   \<and> cullingSavings (defaultState\<lparr>freshPerYear := 0, freshOverride := True\<rparr>) Conservative \<noteq> Num 0
   \<and> cullingSavings (defaultState\<lparr>freshPerYear := 0, freshOverride := True\<rparr>) Conservative = NaN"
  by (simp add: defaultState_def cullingSavings_eq freshCount_def)

subsection \<open>C3: the savings across the scenarios\<close>



subsection \<open>C4: no death event\<close>

text \<open>
  C4 (amended). For every input with \<open>deathEvents = 0\<close> and \<open>milkingCows \<noteq> 0\<close>, and for
  every scenario, the death incidence is \<open>=== 0\<close>, so the zero-guard branch is taken,
  and the death-savings term is exactly 0.
\<close>

theorem deathEvents_zero_deathSavings:
  assumes "deathEvents state = 0" and "milkingCows state \<noteq> 0"
  shows "js_eq (Num (deathEvents state) / Num (milkingCows state)) (Num 0)
       \<and> deathSavings state scen = Num 0"
  using assms by (simp add: deathSavings_eq)

theorem deathEvents_zero_deathSavings_witness:
  "deathEvents (defaultState\<lparr>deathEvents := 0\<rparr>) = 0
   \<and> milkingCows (defaultState\<lparr>deathEvents := 0\<rparr>) \<noteq> 0
   \<and> deathSavings (defaultState\<lparr>deathEvents := 0\<rparr>) Optimistic = Num 0"
  using deathEvents_zero_deathSavings [of "defaultState\<lparr>deathEvents := 0\<rparr>" Optimistic]
  by (simp add: defaultState_def)

text \<open>C4 as stated fails with no cow: the incidence \<open>0 / 0\<close> is \<open>NaN\<close>, the guard
  \<open>deathIncidence === 0\<close> is false and the death savings are \<open>NaN\<close>.\<close>

theorem deathEvents_zero_counterexample:
  "deathEvents (defaultState\<lparr>milkingCows := 0, deathEvents := 0\<rparr>) = 0
   \<and> \<not> js_eq (Num (deathEvents (defaultState\<lparr>milkingCows := 0, deathEvents := 0\<rparr>))
               / Num (milkingCows (defaultState\<lparr>milkingCows := 0, deathEvents := 0\<rparr>))) (Num 0)
   \<and> deathSavings (defaultState\<lparr>milkingCows := 0, deathEvents := 0\<rparr>) Base \<noteq> Num 0
   \<and> deathSavings (defaultState\<lparr>milkingCows := 0, deathEvents := 0\<rparr>) Base = NaN"
  by (simp add: deathSavings_eq)

subsection \<open>C5: the breakeven fields\<close>

text \<open>
  C5 (amended). For every input and scenario, \<open>monthsToBreakeven\<close> and
  \<open>daysToBreakeven\<close> are null if and only if it is not the case that
  \<open>savingsAnnual > 0\<close> and \<open>investmentAnnual > 0\<close>; otherwise they are
  \<open>(investmentAnnual / savingsAnnual) * 12\<close> and \<open>(investmentAnnual / savingsAnnual) * 365\<close>.
\<close>

theorem breakeven_fields:
  "(monthsToBreakeven (computeScenario state scen) = None \<longleftrightarrow>
      \<not> (js_gt (savingsAnnual (computeScenario state scen)) (Num 0)
         \<and> js_gt (investmentAnnual (computeScenario state scen)) (Num 0)))
   \<and> (daysToBreakeven (computeScenario state scen) = None \<longleftrightarrow>
      \<not> (js_gt (savingsAnnual (computeScenario state scen)) (Num 0)
         \<and> js_gt (investmentAnnual (computeScenario state scen)) (Num 0)))
   \<and> (js_gt (savingsAnnual (computeScenario state scen)) (Num 0)
        \<and> js_gt (investmentAnnual (computeScenario state scen)) (Num 0) \<longrightarrow>
      monthsToBreakeven (computeScenario state scen) =
        Some ((investmentAnnual (computeScenario state scen)
                / savingsAnnual (computeScenario state scen)) * Num 12)
      \<and> daysToBreakeven (computeScenario state scen) =
        Some ((investmentAnnual (computeScenario state scen)
                / savingsAnnual (computeScenario state scen)) * Num 365))"
  by (simp add: breakeven_eq)

theorem breakeven_fields_witness:
  "js_gt (savingsAnnual (computeScenario defaultState Base)) (Num 0)
   \<and> js_gt (investmentAnnual (computeScenario defaultState Base)) (Num 0)
   \<and> monthsToBreakeven (computeScenario defaultState Base) = Some (Num (8778240 / 33468689))
   \<and> daysToBreakeven (computeScenario defaultState Base) = Some (Num (267004800 / 33468689))"
  using breakeven_fields [of defaultState Base]
  by (simp add: savingsAnnual_defaultState_Base investmentAnnual_defaultState)

text \<open>C5 as stated fails with no cow: the savings are \<open>NaN\<close> and the investment is
  15960, so both fields are null although neither \<open>savingsAnnual <= 0\<close> nor
  \<open>investmentAnnual <= 0\<close>.\<close>

theorem breakeven_null_counterexample:
  "monthsToBreakeven (computeScenario (defaultState\<lparr>milkingCows := 0\<rparr>) Base) = None
   \<and> daysToBreakeven (computeScenario (defaultState\<lparr>milkingCows := 0\<rparr>) Base) = None
   \<and> \<not> (js_le (savingsAnnual (computeScenario (defaultState\<lparr>milkingCows := 0\<rparr>) Base)) (Num 0)
        \<or> js_le (investmentAnnual (computeScenario (defaultState\<lparr>milkingCows := 0\<rparr>) Base)) (Num 0))"
  by (simp add: breakeven_eq savingsAnnual_emptyHerd investmentAnnual_eq)

subsection \<open>C6: the investment does not depend on the scenario\<close>

text \<open>
  C6. For every input and any two scenarios \<open>s1\<close>, \<open>s2\<close>, the \<open>investmentAnnual\<close> of
  \<open>computeScenario\<close> under \<open>s1\<close> equals the one under \<open>s2\<close>.
\<close>

theorem investmentAnnual_scenario_independent:
  "investmentAnnual (computeScenario state s1) = investmentAnnual (computeScenario state s2)"
  by (simp add: computeScenario_def Let_def)

subsection \<open>C7: the default herd\<close>

text \<open>
  C7. For an input with \<open>milkingCows = 10000\<close> and \<open>freshOverride = false\<close>, the effective
  fresh count is \<open>round(10000 * 1.35) = 13500\<close>, and under the base scenario
  \<open>investmentAnnual = 10000 * 4.5 * 1 + 40 * 3 + 660 * 0.10 * 20 * 12 = 60960\<close>.
\<close>

theorem default_herd_investment:
  assumes "milkingCows state = 10000" and "\<not> freshOverride state"
  shows "fresh state = Num 13500
       \<and> investmentAnnual (computeScenario state Base) = Num 60960
       \<and> Num 60960 = Num 10000 * Num (45 / 10) * Num 1 + Num 40 * Num 3
                        + Num 660 * Num (10 / 100) * Num 20 * Num 12"
  using assms by (simp add: fresh_def computeScenario_def Let_def)

theorem default_herd_investment_witness:
  "milkingCows defaultState = 10000 \<and> \<not> freshOverride defaultState
   \<and> fresh defaultState = Num 13500
   \<and> investmentAnnual (computeScenario defaultState Base) = Num 60960"
  using default_herd_investment [of defaultState]
  by (simp add: defaultState_def)

subsection \<open>C8: the order of the health events\<close>



subsection \<open>C9: the investment is positive\<close>

text \<open>
  C9 (amended). For every input and scenario,
  \<open>investmentAnnual = 4.5 * milkingCows + 120 + 15840\<close>; whenever \<open>milkingCows >= 0\<close>,
  \<open>investmentAnnual >= 15960 > 0\<close>, so that \<open>roiRatio = savingsAnnual / investmentAnnual\<close>
  (the else branch is not taken), and the breakeven fields are null exactly when
  \<open>savingsAnnual > 0\<close> is false.
\<close>

theorem investmentAnnual_positive:
  "investmentAnnual (computeScenario state scen)
      = Num (45 / 10 * milkingCows state + 120 + 15840)
   \<and> (0 \<le> milkingCows state \<longrightarrow>
        js_ge (investmentAnnual (computeScenario state scen)) (Num 15960)
      \<and> js_gt (investmentAnnual (computeScenario state scen)) (Num 0)
      \<and> roiRatio (computeScenario state scen)
          = savingsAnnual (computeScenario state scen)
              / investmentAnnual (computeScenario state scen)
      \<and> (monthsToBreakeven (computeScenario state scen) = None \<longleftrightarrow>
           \<not> js_gt (savingsAnnual (computeScenario state scen)) (Num 0))
      \<and> (daysToBreakeven (computeScenario state scen) = None \<longleftrightarrow>
           \<not> js_gt (savingsAnnual (computeScenario state scen)) (Num 0)))"
proof -
  have i: "investmentAnnual (computeScenario state scen)
      = Num (45 / 10 * milkingCows state + 120 + 15840)"
    by (simp add: investmentAnnual_eq)
  have "js_ge (investmentAnnual (computeScenario state scen)) (Num 15960)
      \<and> js_gt (investmentAnnual (computeScenario state scen)) (Num 0)"
    if "0 \<le> milkingCows state"
    using that by (simp add: i js_ge_def)
  then show ?thesis
    using i by (simp add: roiRatio_eq breakeven_eq)
qed

theorem investmentAnnual_positive_witness:
  "0 \<le> milkingCows defaultState
   \<and> investmentAnnual (computeScenario defaultState Base) = Num 60960
   \<and> js_gt (investmentAnnual (computeScenario defaultState Base)) (Num 0)
   \<and> roiRatio (computeScenario defaultState Base) = Num (33468689 / 731520)
   \<and> monthsToBreakeven (computeScenario defaultState Base) \<noteq> None"
proof -
  have m: "milkingCows defaultState = 10000"
    by (simp add: defaultState_def)
  show ?thesis
    using investmentAnnual_positive [of defaultState Base]
    by (simp add: savingsAnnual_defaultState_Base m)
qed

text \<open>C9 as stated fails on the default herd (10000 cows) with the fresh count
  overridden to 0: the savings are \<open>NaN\<close>, so the breakeven fields are null although
  \<open>savingsAnnual <= 0\<close> is false.\<close>

theorem breakeven_savings_counterexample:
  "0 \<le> milkingCows (defaultState\<lparr>freshPerYear := 0, freshOverride := True\<rparr>)
   \<and> monthsToBreakeven
        (computeScenario (defaultState\<lparr>freshPerYear := 0, freshOverride := True\<rparr>) Base) = None
   \<and> \<not> js_le (savingsAnnual
        (computeScenario (defaultState\<lparr>freshPerYear := 0, freshOverride := True\<rparr>) Base)) (Num 0)"
proof -
  have "freshCount (defaultState\<lparr>freshPerYear := 0, freshOverride := True\<rparr>) = 0"
    by (simp add: freshCount_def)
  then have "savingsAnnual
      (computeScenario (defaultState\<lparr>freshPerYear := 0, freshOverride := True\<rparr>) Base) = NaN"
    by (rule savingsAnnual_noFresh)
  then show ?thesis
    by (simp add: breakeven_eq defaultState_def)
qed

subsection \<open>C10: a health event that costs nothing\<close>

text \<open>
  C10. A health event whose \<open>count\<close> is 0 or whose \<open>costPerEvent\<close> is 0 is neutral:
  for every input and scenario, the result with the event anywhere in \<open>healthEvents\<close>
  (at the end, when \<open>ys\<close> is empty) is the result without it, in every field.
\<close>

theorem neutral_healthEvent:
  assumes "count_ev ev = 0 \<or> costPerEvent ev = 0"
  shows "computeScenario (state\<lparr>healthEvents := xs @ ev # ys\<rparr>) scen
       = computeScenario (state\<lparr>healthEvents := xs @ ys\<rparr>) scen"
  using assms by (intro computeScenario_healthEvents eventCost_neutral)

theorem neutral_healthEvent_witness:
  "(count_ev \<lparr>name = ''Other'', key = ''other'', count_ev = 0, costPerEvent = 500\<rparr> = 0
     \<or> costPerEvent \<lparr>name = ''Other'', key = ''other'', count_ev = 0, costPerEvent = 500\<rparr> = 0)
   \<and> computeScenario (defaultState\<lparr>healthEvents := defaultHealthEvents
         @ \<lparr>name = ''Other'', key = ''other'', count_ev = 0, costPerEvent = 500\<rparr> # []\<rparr>) Base
     = computeScenario (defaultState\<lparr>healthEvents := defaultHealthEvents @ []\<rparr>) Base"
  using neutral_healthEvent
    [where ev = "\<lparr>name = ''Other'', key = ''other'', count_ev = 0, costPerEvent = 500\<rparr>"
       and state = defaultState and xs = defaultHealthEvents and ys = "[]" and scen = Base]
  by simp

end
